theory Spec2Isabelle
  imports Main "HOL-Library.Word" "HOL-Library.Multiset"
begin

section \<open>The uploading-sectors cache of the bus (bus/uploadingsectors.go)\<close>

subsection \<open>Data model\<close>

text \<open>
  \<open>types.FileContractID\<close> and \<open>types.Hash256\<close> are 32-byte arrays; they are modelled as
  256-bit words, the all-zero array (Go's zero value) being the word \<open>0\<close>.
  \<open>api.UploadID\<close> is an opaque fixed-size identifier declared outside the files at hand;
  it is the type parameter \<open>'u\<close>.

  A \<open>time.Time\<close> is an instant in nanoseconds and a \<open>time.Duration\<close> a signed 64-bit
  count of nanoseconds. The clock reading of each operation is passed in as \<open>now\<close>.
\<close>

type_synonym FileContractID = "256 word"
type_synonym Hash256 = "256 word"
type_synonym Time = int
type_synonym Duration = int

definition Hour :: Duration where
  "Hour = 3600 * 1000000000"

definition cacheExpiry :: Duration where
  "cacheExpiry = 24 * Hour"

definition maxDuration :: Duration where
  "maxDuration = 2 ^ 63 - 1"

definition minDuration :: Duration where
  "minDuration = - (2 ^ 63)"

text \<open>\<open>t.Sub(u)\<close>: the difference, saturating at the two ends of \<open>Duration\<close>.\<close>

definition Sub :: "Time \<Rightarrow> Time \<Rightarrow> Duration" where
  "Sub t u = (let d = t - u in
     if d > maxDuration then maxDuration
     else if d < minDuration then minDuration
     else d)"

text \<open>\<open>time.Since(t)\<close> is \<open>time.Now().Sub(t)\<close>.\<close>

definition Since :: "Time \<Rightarrow> Time \<Rightarrow> Duration" where
  "Since now t = Sub now t"

record ongoingUpload =
  started :: Time
  contractSectors :: "FileContractID \<rightharpoonup> Hash256 list"

record 'u uploadingSectorsCache =
  uploads :: "'u \<rightharpoonup> ongoingUpload"
  renewedFrom :: "FileContractID \<rightharpoonup> FileContractID"
  renewedTo :: "FileContractID \<rightharpoonup> FileContractID"

datatype 'u error = ErrUnknownUpload 'u | ErrUploadAlreadyExists 'u

text \<open>
  Go leaves the order in which \<open>range\<close> visits the keys of a map unspecified. Every
  function that ranges over \<open>usc.uploads\<close> takes that order as the list \<open>ks\<close>;
  \<open>range_order ks m\<close> says that \<open>ks\<close> is such an order for the map \<open>m\<close>: each key once.
\<close>

definition range_order :: "'k list \<Rightarrow> ('k \<rightharpoonup> 'v) \<Rightarrow> bool" where
  "range_order ks m \<longleftrightarrow> distinct ks \<and> set ks = dom m"

subsection \<open>Operations\<close>

definition newUploadingSectorsCache :: "'u uploadingSectorsCache" where
  "newUploadingSectorsCache =
     \<lparr>uploads = Map.empty, renewedFrom = Map.empty, renewedTo = Map.empty\<rparr>"

text \<open>\<open>ongoingUpload.addSector\<close>: a missing key reads as the nil slice.\<close>

definition ou_addSector :: "FileContractID \<Rightarrow> Hash256 \<Rightarrow> ongoingUpload \<Rightarrow> ongoingUpload" where
  "ou_addSector fcid root ou =
     ou\<lparr>contractSectors := (contractSectors ou)
        (fcid \<mapsto> (case contractSectors ou fcid of None \<Rightarrow> [] | Some xs \<Rightarrow> xs) @ [root])\<rparr>"

text \<open>\<open>ongoingUpload.sectors\<close>.\<close>

definition ou_sectors :: "Time \<Rightarrow> ongoingUpload \<Rightarrow> FileContractID \<Rightarrow> Hash256 list" where
  "ou_sectors now ou fcid =
     (case contractSectors ou fcid of
        Some sectors \<Rightarrow> if Since now (started ou) < cacheExpiry then sectors else []
      | None \<Rightarrow> [])"

text \<open>\<open>fcids\<close>: a missing key of \<open>renewedFrom\<close> reads as the zero id.\<close>

definition fcids :: "'u uploadingSectorsCache \<Rightarrow> FileContractID \<Rightarrow> FileContractID \<times> FileContractID" where
  "fcids usc fcid =
     (case renewedTo usc fcid of
        Some renewed \<Rightarrow> (renewed, fcid)
      | None \<Rightarrow> (fcid, case renewedFrom usc fcid of None \<Rightarrow> 0 | Some p \<Rightarrow> p))"

definition addRenewal ::
  "FileContractID \<Rightarrow> FileContractID \<Rightarrow> 'u uploadingSectorsCache \<Rightarrow> 'u uploadingSectorsCache" where
  "addRenewal fcid rFrom usc =
     (let usc1 = (case renewedFrom usc rFrom of
                    Some prev \<Rightarrow> usc\<lparr>renewedTo := (renewedTo usc)(prev := None),
                                     renewedFrom := (renewedFrom usc)(rFrom := None)\<rparr>
                  | None \<Rightarrow> usc)
      in usc1\<lparr>renewedFrom := (renewedFrom usc1)(fcid \<mapsto> rFrom),
              renewedTo := (renewedTo usc1)(rFrom \<mapsto> fcid)\<rparr>)"

definition addUploadingSector ::
  "'u \<Rightarrow> FileContractID \<Rightarrow> Hash256 \<Rightarrow> 'u uploadingSectorsCache
     \<Rightarrow> 'u error + 'u uploadingSectorsCache" where
  "addUploadingSector uID fcid root usc =
     (case uploads usc uID of
        Some ongoing \<Rightarrow> Inr (usc\<lparr>uploads := (uploads usc)(uID \<mapsto> ou_addSector fcid root ongoing)\<rparr>)
      | None \<Rightarrow> Inl (ErrUnknownUpload uID))"

text \<open>\<open>ongoingUploads\<close>: the uploads in the order \<open>ks\<close> of the range loop.\<close>

definition ongoingUploads :: "'u list \<Rightarrow> 'u uploadingSectorsCache \<Rightarrow> ongoingUpload list" where
  "ongoingUploads ks usc = List.map_filter (uploads usc) ks"

text \<open>
  \<open>pending\<close>: \<open>size\<close> is a \<open>uint64\<close>. \<open>rhp.SectorSize\<close> is a constant of another
  module; it is the parameter \<open>ssz\<close>.
\<close>

definition pending ::
  "64 word \<Rightarrow> Time \<Rightarrow> 'u list \<Rightarrow> 'u uploadingSectorsCache \<Rightarrow> FileContractID \<Rightarrow> 64 word" where
  "pending ssz now ks usc fcid0 =
     (case fcids usc fcid0 of (fcid, rFrom) \<Rightarrow>
        foldl (\<lambda>size ongoing.
                 size + of_nat (length (ou_sectors now ongoing fcid)) * ssz
                      + of_nat (length (ou_sectors now ongoing rFrom)) * ssz)
              0 (ongoingUploads ks usc))"

definition sectors ::
  "Time \<Rightarrow> 'u list \<Rightarrow> 'u uploadingSectorsCache \<Rightarrow> FileContractID \<Rightarrow> Hash256 list" where
  "sectors now ks usc fcid0 =
     (case fcids usc fcid0 of (fcid, rFrom) \<Rightarrow>
        foldl (\<lambda>roots ongoing.
                 (roots @ ou_sectors now ongoing fcid) @ ou_sectors now ongoing rFrom)
              [] (ongoingUploads ks usc))"

text \<open>
  \<open>finishUpload\<close>: after deleting \<open>uID\<close>, the loop visits the remaining keys in the order
  \<open>ks\<close> and deletes the uploads that started more than \<open>cacheExpiry\<close> ago.
\<close>

definition prune_step :: "Time \<Rightarrow> ('u \<rightharpoonup> ongoingUpload) \<Rightarrow> 'u \<Rightarrow> ('u \<rightharpoonup> ongoingUpload)" where
  "prune_step now m uID =
     (case m uID of
        Some ongoing \<Rightarrow> if Since now (started ongoing) > cacheExpiry then m(uID := None) else m
      | None \<Rightarrow> m)"

definition finishUpload ::
  "Time \<Rightarrow> 'u list \<Rightarrow> 'u \<Rightarrow> 'u uploadingSectorsCache \<Rightarrow> 'u uploadingSectorsCache" where
  "finishUpload now ks uID usc =
     usc\<lparr>uploads := foldl (prune_step now) ((uploads usc)(uID := None)) ks\<rparr>"

definition trackUpload ::
  "Time \<Rightarrow> 'u \<Rightarrow> 'u uploadingSectorsCache \<Rightarrow> 'u error + 'u uploadingSectorsCache" where
  "trackUpload now uID usc =
     (case uploads usc uID of
        Some _ \<Rightarrow> Inl (ErrUploadAlreadyExists uID)
      | None \<Rightarrow> Inr (usc\<lparr>uploads := (uploads usc)
                       (uID \<mapsto> \<lparr>started = now, contractSectors = Map.empty\<rparr>)\<rparr>))"

subsection \<open>Callers and auxiliary notions\<close>

text \<open>
  A caller that pushes the sectors \<open>roots\<close> one after the other under one contract of one
  upload, stopping at the first error.
\<close>

fun addSectors ::
  "'u \<Rightarrow> FileContractID \<Rightarrow> Hash256 list \<Rightarrow> 'u uploadingSectorsCache
     \<Rightarrow> 'u error + 'u uploadingSectorsCache" where
  "addSectors uID fcid [] usc = Inr usc"
| "addSectors uID fcid (root # roots) usc =
     (case addUploadingSector uID fcid root usc of
        Inl e \<Rightarrow> Inl e
      | Inr usc' \<Rightarrow> addSectors uID fcid roots usc')"

text \<open>
  The operations of the upload lifecycle, as the workers call them. A call that returns
  an error leaves the cache as it was.
\<close>

datatype 'u upload_op =
    Track Time 'u
  | AddSector 'u FileContractID Hash256
  | Finish Time "'u list" 'u

fun apply_op :: "'u upload_op \<Rightarrow> 'u uploadingSectorsCache \<Rightarrow> 'u uploadingSectorsCache" where
  "apply_op (Track now uID) usc =
     (case trackUpload now uID usc of Inl _ \<Rightarrow> usc | Inr usc' \<Rightarrow> usc')"
| "apply_op (AddSector uID fcid root) usc =
     (case addUploadingSector uID fcid root usc of Inl _ \<Rightarrow> usc | Inr usc' \<Rightarrow> usc')"
| "apply_op (Finish now ks uID) usc = finishUpload now ks uID usc"

definition run_ops :: "'u upload_op list \<Rightarrow> 'u uploadingSectorsCache \<Rightarrow> 'u uploadingSectorsCache" where
  "run_ops ops usc = foldl (\<lambda>s op. apply_op op s) usc ops"

text \<open>The slice stored under a contract of an upload, nil when the key is missing.\<close>

definition sectorsOf :: "ongoingUpload \<Rightarrow> FileContractID \<Rightarrow> Hash256 list" where
  "sectorsOf ou fcid = (case contractSectors ou fcid of None \<Rightarrow> [] | Some xs \<Rightarrow> xs)"

text \<open>
  What one pass of the loop of \<open>sectors\<close> appends for the upload with key \<open>uID\<close>:
  its live sectors under the two ids that \<open>fcids\<close> returns.
\<close>

definition contribution ::
  "Time \<Rightarrow> 'u uploadingSectorsCache \<Rightarrow> FileContractID \<Rightarrow> 'u \<Rightarrow> Hash256 list" where
  "contribution now usc fcid0 uID =
     (case uploads usc uID of
        None \<Rightarrow> []
      | Some ongoing \<Rightarrow> ou_sectors now ongoing (fst (fcids usc fcid0))
                       @ ou_sectors now ongoing (snd (fcids usc fcid0)))"

text \<open>The number of live sectors that a list of uploads holds under two contract ids.\<close>

definition live_count :: "Time \<Rightarrow> FileContractID \<Rightarrow> FileContractID \<Rightarrow> ongoingUpload list \<Rightarrow> nat" where
  "live_count now f r ous =
     sum_list (map (\<lambda>ou. length (ou_sectors now ou f) + length (ou_sectors now ou r)) ous)"

text \<open>What the pruning loop of \<open>finishUpload\<close> leaves of one entry of the map.\<close>

definition keep_unexpired :: "Time \<Rightarrow> ongoingUpload option \<Rightarrow> ongoingUpload option" where
  "keep_unexpired now v =
     (case v of
        Some ou \<Rightarrow> if Since now (started ou) > cacheExpiry then None else Some ou
      | None \<Rightarrow> None)"

text \<open>The cache with the entry of one upload deleted, as \<open>delete(usc.uploads, uID)\<close> leaves it.\<close>

definition deleteUpload :: "'u \<Rightarrow> 'u uploadingSectorsCache \<Rightarrow> 'u uploadingSectorsCache" where
  "deleteUpload uID usc = usc\<lparr>uploads := (uploads usc)(uID := None)\<rparr>"

section \<open>The host scanner (autopilot/scanner_test.go)\<close>

subsection \<open>The mock bus\<close>

text \<open>
  \<open>fmt.Sprintf("%d")\<close> of an integer: its decimal digits, with a minus sign when it is
  negative.
\<close>

fun digits :: "nat \<Rightarrow> string" where
  "digits n = (if n < 10 then [''0123456789'' ! n]
               else digits (n div 10) @ [''0123456789'' ! (n mod 10)])"

definition fmt_d :: "int \<Rightarrow> string" where
  "fmt_d i = (if i < 0 then ''-'' @ digits (nat (- i)) else digits (nat i))"

record host =
  NetAddress :: string
  PublicKey :: "256 word"

record hostAddress =
  haNetAddress :: string
  haPublicKey :: "256 word"

record mockBus =
  hosts :: "host list"
  reqs :: "string list"

datatype bus_error = SliceBoundsOutOfRange

text \<open>
  \<open>mockBus.Hosts\<close>: the request is recorded first. \<open>b.hosts[start:end]\<close> panics when
  \<open>start\<close> is negative or beyond \<open>end\<close>; the panic is the error value. The result of the
  early return is the nil slice.
\<close>

definition Hosts :: "int \<Rightarrow> int \<Rightarrow> mockBus \<Rightarrow> mockBus \<times> (bus_error + host list)" where
  "Hosts offset limit b =
     (let b' = b\<lparr>reqs := reqs b @ [fmt_d offset @ ''-'' @ fmt_d (offset + limit)]\<rparr>;
          start = offset
      in if start > int (length (hosts b)) then (b', Inr [])
         else let end = (if offset + limit > int (length (hosts b))
                         then int (length (hosts b)) else offset + limit)
              in if start < 0 \<or> end < start then (b', Inl SliceBoundsOutOfRange)
                 else (b', Inr (take (nat (end - start)) (drop (nat start) (hosts b)))))"

definition HostsForScanning ::
  "int \<Rightarrow> int \<Rightarrow> mockBus \<Rightarrow> mockBus \<times> (bus_error + hostAddress list)" where
  "HostsForScanning offset limit b =
     (case Hosts offset limit b of
        (b', Inl err) \<Rightarrow> (b', Inl err)
      | (b', Inr hs) \<Rightarrow>
          (b', Inr (map (\<lambda>h. \<lparr>haNetAddress = NetAddress h, haPublicKey = PublicKey h\<rparr>) hs)))"

subsection \<open>The sweep\<close>

text \<open>The fields of the scanner that \<open>newTestScanner\<close> sets and the sweep reads.\<close>

record scanner =
  scanBatchSize :: int
  scanThreads :: int

text \<open>
  Modelled from the spec: the paging loop of \<open>tryPerformHostScan\<close> is not among the files
  at hand; only its test and the mock bus are. The spec has the scanner page through the
  host-listing collaborator in batches of \<open>scanBatchSize\<close>, starting at offset 0, until
  paging is exhausted, the last page being the one that is shorter than a batch; a failure
  of the collaborator ends the sweep early. \<open>listHosts\<close> is the collaborator, \<open>acc\<close> the
  hosts handed to the workers so far. A collaborator that never returns a short page keeps
  the loop running; not returning is the value \<open>None\<close>.
\<close>

partial_function (option) scanPages ::
  "(int \<Rightarrow> int \<Rightarrow> 'b \<Rightarrow> 'b \<times> (bus_error + 'h list)) \<Rightarrow> int \<Rightarrow> int \<Rightarrow> 'b \<Rightarrow> 'h list
     \<Rightarrow> ('b \<times> (bus_error + 'h list)) option" where
  "scanPages listHosts batch offset b acc =
     (case listHosts offset batch b of
        (b', Inl err) \<Rightarrow> Some (b', Inl err)
      | (b', Inr page) \<Rightarrow>
          if int (length page) < batch then Some (b', Inr (acc @ page))
          else scanPages listHosts batch (offset + batch) b' (acc @ page))"

definition performHostScan ::
  "scanner \<Rightarrow> mockBus \<Rightarrow> (mockBus \<times> (bus_error + hostAddress list)) option" where
  "performHostScan s b = scanPages HostsForScanning (scanBatchSize s) 0 b []"

subsection \<open>The downtime policy\<close>

definition Day :: Duration where
  "Day = 24 * Hour"

definition Week :: Duration where
  "Week = 7 * Day"

text \<open>
  Modelled from the spec: \<open>minRecentScanFailures\<close> is not among the files at hand; only
  its test is. The spec fixes four points for a scan interval of one day (two weeks give
  10, one week 5, one day 1, one hour 0), makes the function monotonic in the tolerated
  downtime and a function of its ratio to the scan interval, makes it 0 below one scan
  interval, and leaves the mapping between the points open. This is the step function
  through the four points.
\<close>

definition minRecentScanFailures :: "Duration \<Rightarrow> Duration \<Rightarrow> nat" where
  "minRecentScanFailures scanInterval maxDowntime =
     (if maxDowntime < scanInterval then 0
      else if maxDowntime < 7 * scanInterval then 1
      else if maxDowntime < 14 * scanInterval then 5
      else 10)"

section \<open>Auxiliary facts\<close>

subsection \<open>The clock\<close>

lemma Since_lt_expiry: "Since now t < cacheExpiry \<longleftrightarrow> now - t < cacheExpiry"
  by (simp add: Since_def Sub_def Let_def cacheExpiry_def Hour_def maxDuration_def minDuration_def)

lemma Since_gt_expiry: "cacheExpiry < Since now t \<longleftrightarrow> cacheExpiry < now - t"
  by (simp add: Since_def Sub_def Let_def cacheExpiry_def Hour_def maxDuration_def minDuration_def)

lemma Since_mono: "now \<le> now' \<Longrightarrow> Since now t \<le> Since now' t"
  by (simp add: Since_def Sub_def Let_def maxDuration_def minDuration_def)

lemma ou_sectors_live:
  "Since now (started ou) < cacheExpiry \<Longrightarrow> ou_sectors now ou c = sectorsOf ou c"
  by (simp add: ou_sectors_def sectorsOf_def split: option.splits)

lemma ou_sectors_expired:
  "\<not> Since now (started ou) < cacheExpiry \<Longrightarrow> ou_sectors now ou c = []"
  by (simp add: ou_sectors_def split: option.splits)

subsection \<open>The loops of the two queries\<close>

lemma foldl_add_sum_list:
  fixes a :: "'a::comm_monoid_add"
  shows "foldl (\<lambda>s x. s + g x + h x) a xs = a + sum_list (map (\<lambda>x. g x + h x) xs)"
  by (induction xs arbitrary: a) (simp_all add: add.assoc)

lemma foldl_append_concat:
  "foldl (\<lambda>rs x. (rs @ g x) @ h x) a xs = a @ concat (map (\<lambda>x. g x @ h x) xs)"
  by (induction xs arbitrary: a) simp_all

lemma sum_list_of_nat_mult:
  fixes c :: "'a::comm_semiring_1"
  shows "sum_list (map (\<lambda>x. of_nat (m x) * c + of_nat (n x) * c) xs)
         = of_nat (sum_list (map (\<lambda>x. m x + n x) xs)) * c"
  by (induction xs) (simp_all add: algebra_simps)

lemma pending_count:
  "pending ssz now ks usc c =
     of_nat (live_count now (fst (fcids usc c)) (snd (fcids usc c)) (ongoingUploads ks usc)) * ssz"
  by (simp add: pending_def live_count_def split_beta foldl_add_sum_list sum_list_of_nat_mult)

lemma sectors_concat:
  "sectors now ks usc c =
     concat (map (\<lambda>ou. ou_sectors now ou (fst (fcids usc c)) @ ou_sectors now ou (snd (fcids usc c)))
                 (ongoingUploads ks usc))"
  by (simp only: sectors_def split_beta foldl_append_concat append_Nil)

lemma length_sectors:
  "length (sectors now ks usc c) =
     live_count now (fst (fcids usc c)) (snd (fcids usc c)) (ongoingUploads ks usc)"
  by (simp add: sectors_concat live_count_def length_concat comp_def)

lemma ongoingUploads_Cons:
  "ongoingUploads (k # ks) usc =
     (case uploads usc k of None \<Rightarrow> [] | Some ou \<Rightarrow> [ou]) @ ongoingUploads ks usc"
  by (simp add: ongoingUploads_def map_filter_def split: option.splits)

lemma sectors_contribution:
  "sectors now ks usc c = concat (map (contribution now usc c) ks)"
proof -
  have "concat (map (\<lambda>ou. ou_sectors now ou f @ ou_sectors now ou r) (ongoingUploads ks usc))
        = concat (map (\<lambda>k. case uploads usc k of None \<Rightarrow> []
                           | Some ou \<Rightarrow> ou_sectors now ou f @ ou_sectors now ou r) ks)" for f r
    by (induction ks) (simp_all add: ongoingUploads_Cons ongoingUploads_def map_filter_def split: option.splits)
  moreover have "contribution now usc c =
      (\<lambda>k. case uploads usc k of None \<Rightarrow> []
          | Some ou \<Rightarrow> ou_sectors now ou (fst (fcids usc c)) @ ou_sectors now ou (snd (fcids usc c)))"
    by (rule ext) (simp add: contribution_def)
  ultimately show ?thesis
    by (simp only: sectors_concat)
qed

lemma live_count_contribution:
  "live_count now (fst (fcids usc c)) (snd (fcids usc c)) (ongoingUploads ks usc)
     = sum_list (map (\<lambda>k. length (contribution now usc c k)) ks)"
proof -
  have "length (sectors now ks usc c) = sum_list (map (\<lambda>k. length (contribution now usc c k)) ks)"
    by (simp add: sectors_contribution length_concat comp_def)
  then show ?thesis
    by (simp only: length_sectors)
qed

lemma pending_contribution:
  "pending ssz now ks usc c = of_nat (sum_list (map (\<lambda>k. length (contribution now usc c k)) ks)) * ssz"
  by (simp only: pending_count live_count_contribution)

subsection \<open>The order of the range loop\<close>

lemma range_order_mset: "range_order ks1 m \<Longrightarrow> range_order ks2 m \<Longrightarrow> mset ks1 = mset ks2"
  by (metis range_order_def set_eq_iff_mset_eq_distinct)

lemma sum_list_mset_cong:
  fixes g :: "'a \<Rightarrow> nat"
  assumes e: "mset xs = mset ys"
  shows "sum_list (map g xs) = sum_list (map g ys)"
proof -
  have "sum_list (map g xs) = sum_mset (image_mset g (mset xs))"
    by (simp only: sum_mset_sum_list [symmetric] mset_map)
  also have "\<dots> = sum_mset (image_mset g (mset ys))"
    by (simp only: e)
  also have "\<dots> = sum_list (map g ys)"
    by (simp only: sum_mset_sum_list [symmetric] mset_map)
  finally show ?thesis .
qed

lemma pending_order_indep:
  assumes "range_order ks1 (uploads usc)" and "range_order ks2 (uploads usc)"
  shows "pending ssz now ks1 usc c = pending ssz now ks2 usc c"
proof -
  have "mset ks1 = mset ks2"
    using assms by (rule range_order_mset)
  then have "sum_list (map (\<lambda>k. length (contribution now usc c k)) ks1)
             = sum_list (map (\<lambda>k. length (contribution now usc c k)) ks2)"
    by (rule sum_list_mset_cong)
  then show ?thesis
    by (simp only: pending_contribution)
qed

subsection \<open>The pruning loop\<close>

lemma keep_unexpired_idem: "keep_unexpired now (keep_unexpired now v) = keep_unexpired now v"
  by (simp add: keep_unexpired_def split: option.splits)

lemma prune_step_apply:
  "prune_step now m a k = (if k = a then keep_unexpired now (m a) else m k)"
  by (simp add: prune_step_def keep_unexpired_def split: option.splits)

lemma foldl_prune_step:
  "foldl (prune_step now) m ks k = (if k \<in> set ks then keep_unexpired now (m k) else m k)"
proof (induction ks arbitrary: m)
  case Nil
  show ?case by simp
next
  case (Cons a ks)
  have "foldl (prune_step now) m (a # ks) k = foldl (prune_step now) (prune_step now m a) ks k"
    by simp
  also have "\<dots> = (if k \<in> set ks then keep_unexpired now (prune_step now m a k)
                     else prune_step now m a k)"
    by (rule Cons.IH)
  also have "\<dots> = (if k \<in> set (a # ks) then keep_unexpired now (m k) else m k)"
    by (simp add: prune_step_apply keep_unexpired_idem)
  finally show ?case .
qed

lemma uploads_finishUpload:
  "uploads (finishUpload now ks uID usc) k =
     (if k \<in> set ks then keep_unexpired now (((uploads usc)(uID := None)) k)
      else ((uploads usc)(uID := None)) k)"
  by (simp add: finishUpload_def foldl_prune_step)

lemma uploads_finishUpload_self: "uploads (finishUpload now ks uID usc) uID = None"
  by (simp add: uploads_finishUpload keep_unexpired_def)

subsection \<open>Frames\<close>

lemma fcids_cong:
  "renewedTo a = renewedTo b \<Longrightarrow> renewedFrom a = renewedFrom b \<Longrightarrow> fcids a c = fcids b c"
  by (simp add: fcids_def split: option.splits)

lemma apply_op_renewals:
  "renewedTo (apply_op op usc) = renewedTo usc \<and> renewedFrom (apply_op op usc) = renewedFrom usc"
  by (cases op)
     (simp_all add: trackUpload_def addUploadingSector_def finishUpload_def split: option.splits)

lemma run_ops_renewals:
  "renewedTo (run_ops ops usc) = renewedTo usc \<and> renewedFrom (run_ops ops usc) = renewedFrom usc"
  unfolding run_ops_def
  by (induction ops arbitrary: usc) (simp_all add: apply_op_renewals)

section \<open>Renewal edges\<close>

text \<open>
  C4. Starting from the empty cache, \<open>addRenewal B A\<close> followed by \<open>addRenewal C B\<close>
  leaves \<open>renewedFrom\<close> with the single entry \<open>C \<mapsto> B\<close> and \<open>renewedTo\<close> with the single
  entry \<open>B \<mapsto> C\<close>: the edges of \<open>A\<close> are deleted, and each map has exactly one key.
\<close>

theorem chain_pruning:
  fixes A B C :: FileContractID
  defines "usc \<equiv> addRenewal C B (addRenewal B A (newUploadingSectorsCache :: 'u uploadingSectorsCache))"
  shows "renewedFrom usc = [C \<mapsto> B] \<and> renewedTo usc = [B \<mapsto> C]
         \<and> card (dom (renewedFrom usc)) = 1 \<and> card (dom (renewedTo usc)) = 1"
proof -
  have f: "renewedFrom usc = [C \<mapsto> B]"
    unfolding usc_def by (auto simp: addRenewal_def newUploadingSectorsCache_def Let_def)
  have t: "renewedTo usc = [B \<mapsto> C]"
    unfolding usc_def by (auto simp: addRenewal_def newUploadingSectorsCache_def Let_def)
  show ?thesis by (simp add: f t)
qed

section \<open>The session lifecycle\<close>

text \<open>
  C2. \<open>addUploadingSector\<close> fails, with \<open>ErrUnknownUpload\<close>, exactly when the upload id
  is not a key of \<open>uploads\<close>, and succeeds otherwise; \<open>trackUpload\<close> fails, with
  \<open>ErrUploadAlreadyExists\<close>, exactly when the id is a key, and succeeds otherwise. An id
  is not a key in the new cache, nor after \<open>finishUpload\<close> of that id.
\<close>

theorem session_error_contract:
  "((addUploadingSector uID fcid root usc = Inl (ErrUnknownUpload uID)) \<longleftrightarrow> uploads usc uID = None)
   \<and> ((\<exists>usc'. addUploadingSector uID fcid root usc = Inr usc') \<longleftrightarrow> uploads usc uID \<noteq> None)
   \<and> ((trackUpload now uID usc = Inl (ErrUploadAlreadyExists uID)) \<longleftrightarrow> uploads usc uID \<noteq> None)
   \<and> ((\<exists>usc'. trackUpload now uID usc = Inr usc') \<longleftrightarrow> uploads usc uID = None)
   \<and> uploads (newUploadingSectorsCache :: 'u uploadingSectorsCache) uID = None
   \<and> uploads (finishUpload now' ks uID usc) uID = None"
proof -
  have a: "(addUploadingSector uID fcid root usc = Inl (ErrUnknownUpload uID)) \<longleftrightarrow> uploads usc uID = None"
    by (simp add: addUploadingSector_def split: option.splits)
  have b: "(\<exists>usc'. addUploadingSector uID fcid root usc = Inr usc') \<longleftrightarrow> uploads usc uID \<noteq> None"
    by (simp add: addUploadingSector_def split: option.splits)
  have c: "(trackUpload now uID usc = Inl (ErrUploadAlreadyExists uID)) \<longleftrightarrow> uploads usc uID \<noteq> None"
    by (simp add: trackUpload_def split: option.splits)
  have d: "(\<exists>usc'. trackUpload now uID usc = Inr usc') \<longleftrightarrow> uploads usc uID = None"
    by (simp add: trackUpload_def split: option.splits)
  have e: "uploads (newUploadingSectorsCache :: 'u uploadingSectorsCache) uID = None"
    by (simp add: newUploadingSectorsCache_def)
  from a b c d e uploads_finishUpload_self [of now' ks uID usc] show ?thesis
    by blast
qed

theorem session_error_contract_witness:
  "addUploadingSector (1::nat) 7 9 newUploadingSectorsCache = Inl (ErrUnknownUpload 1)
   \<and> trackUpload 0 (1::nat) newUploadingSectorsCache
       = Inr \<lparr>uploads = [1 \<mapsto> \<lparr>started = 0, contractSectors = Map.empty\<rparr>],
              renewedFrom = Map.empty, renewedTo = Map.empty\<rparr>"
  using session_error_contract [of "1::nat" 7 9 newUploadingSectorsCache 0 0 "[]"]
  by (simp add: addUploadingSector_def trackUpload_def newUploadingSectorsCache_def)

text \<open>
  C5, as the code has it. \<open>addUploadingSector\<close> does not read the clock: an upload that
  was tracked more than 24 hours ago and is still a key of \<open>uploads\<close> accepts the sector,
  the call succeeds and appends it; the queries at that instant read nothing from the
  upload. The call fails only for an id that is not a key.
\<close>

theorem addSector_on_expired_upload:
  assumes "uploads usc uID = Some ou"
    and "cacheExpiry < now - started ou"
  shows "addUploadingSector uID fcid root usc
           = Inr (usc\<lparr>uploads := (uploads usc)(uID \<mapsto> ou_addSector fcid root ou)\<rparr>)
         \<and> sectorsOf (ou_addSector fcid root ou) fcid = sectorsOf ou fcid @ [root]
         \<and> ou_sectors now (ou_addSector fcid root ou) fcid = []"
proof -
  have "\<not> Since now (started (ou_addSector fcid root ou)) < cacheExpiry"
    using assms(2) by (simp add: Since_lt_expiry ou_addSector_def)
  then have "ou_sectors now (ou_addSector fcid root ou) fcid = []"
    by (rule ou_sectors_expired)
  moreover have "sectorsOf (ou_addSector fcid root ou) fcid = sectorsOf ou fcid @ [root]"
    by (simp add: sectorsOf_def ou_addSector_def)
  moreover have "addUploadingSector uID fcid root usc
           = Inr (usc\<lparr>uploads := (uploads usc)(uID \<mapsto> ou_addSector fcid root ou)\<rparr>)"
    using assms(1) by (simp add: addUploadingSector_def)
  ultimately show ?thesis by simp
qed

theorem addSector_on_expired_upload_witness:
  "addUploadingSector (1::nat) 7 9
      \<lparr>uploads = [1 \<mapsto> \<lparr>started = 0, contractSectors = Map.empty\<rparr>],
       renewedFrom = Map.empty, renewedTo = Map.empty\<rparr>
     = Inr \<lparr>uploads = [1 \<mapsto> \<lparr>started = 0, contractSectors = [7 \<mapsto> [9]]\<rparr>],
            renewedFrom = Map.empty, renewedTo = Map.empty\<rparr>
   \<and> cacheExpiry < 25 * Hour - 0
   \<and> ou_sectors (25 * Hour) \<lparr>started = 0, contractSectors = [7 \<mapsto> [9]]\<rparr> 7 = []"
  using addSector_on_expired_upload
    [of "\<lparr>uploads = [1 \<mapsto> \<lparr>started = 0, contractSectors = Map.empty\<rparr>],
          renewedFrom = Map.empty, renewedTo = Map.empty\<rparr>" "1::nat"
        "\<lparr>started = 0, contractSectors = Map.empty\<rparr>" "25 * Hour" 7 9]
  by (simp add: ou_addSector_def cacheExpiry_def Hour_def)

text \<open>
  C5, as the claim has it, fails: the upload tracked at instant 0 is still a key 25 hours
  later, and \<open>addUploadingSector\<close> returns the updated cache, not \<open>ErrUnknownUpload\<close>.
\<close>

theorem addSector_expired_counterexample:
  "trackUpload 0 (1::nat) newUploadingSectorsCache
     = Inr \<lparr>uploads = [1 \<mapsto> \<lparr>started = 0, contractSectors = Map.empty\<rparr>],
            renewedFrom = Map.empty, renewedTo = Map.empty\<rparr>
   \<and> cacheExpiry < Since (25 * Hour) 0
   \<and> addUploadingSector (1::nat) 7 9
        \<lparr>uploads = [1 \<mapsto> \<lparr>started = 0, contractSectors = Map.empty\<rparr>],
         renewedFrom = Map.empty, renewedTo = Map.empty\<rparr>
       \<noteq> Inl (ErrUnknownUpload 1)"
  by (simp add: trackUpload_def newUploadingSectorsCache_def addUploadingSector_def
        Since_def Sub_def Let_def maxDuration_def minDuration_def cacheExpiry_def Hour_def)

section \<open>The downtime policy\<close>

text \<open>
  C8. With a scan interval of one day, \<open>minRecentScanFailures\<close> is 10 for a tolerated
  downtime of two weeks, 5 for one week, 1 for one day and 0 for one hour; it is 0
  whenever the tolerated downtime is below one scan interval, and it is monotonic in the
  tolerated downtime.
\<close>

theorem minRecentScanFailures_table:
  "minRecentScanFailures Day (2 * Week) = 10
   \<and> minRecentScanFailures Day Week = 5
   \<and> minRecentScanFailures Day Day = 1
   \<and> minRecentScanFailures Day Hour = 0
   \<and> (maxDowntime < scanInterval \<longrightarrow> minRecentScanFailures scanInterval maxDowntime = 0)
   \<and> (d1 \<le> d2 \<longrightarrow> minRecentScanFailures scanInterval d1 \<le> minRecentScanFailures scanInterval d2)"
  by (simp add: minRecentScanFailures_def Day_def Week_def Hour_def)

theorem minRecentScanFailures_table_witness:
  "(30 * 60 * 1000000000 :: int) < Day \<and> minRecentScanFailures Day (30 * 60 * 1000000000) = 0
   \<and> Day \<le> Week \<and> minRecentScanFailures Day Day \<le> minRecentScanFailures Day Week"
  using minRecentScanFailures_table [of "30 * 60 * 1000000000" Day Day Week]
  by (simp add: Day_def Week_def Hour_def)

end
